theory Spec2Isabelle
  imports Complex_Main
begin

section \<open>Python values, exceptions and dictionaries\<close>

text \<open>
  The solver of \<^verbatim>\<open>LinearElasticitySolver.py\<close> is a Python class over the dolfin/UFL
  finite-element library. The model keeps the decision logic of the class and reads the
  library symbolically: a UFL form is the ordered list of its integrals, a mesh is the list
  of the areas of its exterior facets, and a Python float is a real number (rounding and
  overflow are outside the model).

  The values a case setting or a boundary condition can hold: \<^verbatim>\<open>None\<close>, a number, a dolfin
  \<^verbatim>\<open>Constant\<close> (its values), a dolfin \<^verbatim>\<open>Expression\<close> (the source texts of its components), and
  a Python list whose entries are numbers or \<^verbatim>\<open>None\<close>. A \<^verbatim>\<open>Constant\<close> or \<^verbatim>\<open>Expression\<close> of one
  component is the scalar one, as \<^verbatim>\<open>Constant(0.01)\<close>; one of several components is
  vector-valued, as \<^verbatim>\<open>Constant((0, 0, 0))\<close>.
\<close>

datatype pyobj =
    PyNone
  | Num real
  | Constant "real list"
  | Expression "string list"
  | PerAxis "real option list"

text \<open>
  Python's truth test, as \<^verbatim>\<open>if x:\<close> applies it: \<^verbatim>\<open>None\<close>, zero and the empty list are
  false; a UFL object is true.
\<close>

fun truthy :: "pyobj \<Rightarrow> bool" where
  "truthy PyNone = False"
| "truthy (Num r) = (r \<noteq> 0)"
| "truthy (Constant c) = True"
| "truthy (Expression e) = True"
| "truthy (PerAxis xs) = (xs \<noteq> [])"

text \<open>
  The exceptions the class can end with. \<^verbatim>\<open>SolverError\<close> is the only one the class raises
  itself; the others are raised by Python or by UFL.
\<close>

datatype error =
    SolverError string
  | ZeroDivisionError
  | KeyError string
  | AttributeError string
  | TypeError string
  | NameError string
  | UFLException string

text \<open>A dictionary is an association list; \<^verbatim>\<open>d[k]\<close> raises \<^verbatim>\<open>KeyError\<close> on a missing key.\<close>

definition getitem :: "(string \<times> 'a) list \<Rightarrow> string \<Rightarrow> error + 'a" where
  "getitem d k = (case map_of d k of None \<Rightarrow> Inl (KeyError k) | Some v \<Rightarrow> Inr v)"

section \<open>The solver object\<close>

text \<open>
  A boundary condition is a dictionary with the keys \<^verbatim>\<open>boundary\<close> (a dolfin \<^verbatim>\<open>SubDomain\<close>, here
  the list of the facets it selects), \<^verbatim>\<open>boundary_id\<close>, \<^verbatim>\<open>type\<close>, \<^verbatim>\<open>value\<close> and, optionally,
  \<^verbatim>\<open>direction\<close>.
\<close>

record bc =
  boundary :: "nat list"
  boundary_id :: nat
  bc_type :: string
  bc_value :: pyobj
  direction :: "pyobj option"

text \<open>
  The attributes of the solver that the class reads. \<^verbatim>\<open>temperature_distribution\<close> and
  \<^verbatim>\<open>thermal_stress\<close> are optional: \<open>None\<close> says that the object has no such attribute.
  \<^verbatim>\<open>mesh\<close> lists the areas of the exterior facets; a facet is its index in that list.
\<close>

record solver =
  material :: "(string \<times> real) list"
  dimension :: nat
  body_source :: pyobj
  temperature_distribution :: "pyobj option"
  thermal_stress :: "bool option"
  reference_values :: "(string \<times> real) list"
  boundary_conditions :: "(string \<times> bc) list"
  solving_modal :: bool
  mesh :: "real list"

text \<open>
  \<^verbatim>\<open>__init__\<close> (lines 25-42). \<open>base\<close> is the object as \<^verbatim>\<open>SolverBase.__init__\<close> leaves it and
  \<open>translate_value\<close> is the method of \<^verbatim>\<open>SolverBase\<close>; both are outside this file.
\<close>

definition init :: "(pyobj \<Rightarrow> pyobj) \<Rightarrow> solver \<Rightarrow> (string \<times> pyobj) list \<Rightarrow> solver" where
  "init translate_value base case_settings =
     (let s1 = (if truthy (body_source base)
                then base\<lparr>body_source := translate_value (body_source base)\<rparr>
                else if dimension base = 3
                then base\<lparr>body_source := Constant [0, 0, 0]\<rparr>
                else base\<lparr>body_source := Constant [0, 0]\<rparr>);
          s2 = (case map_of case_settings ''temperature_distribution'' of
                  Some t \<Rightarrow> s1\<lparr>thermal_stress := Some True, temperature_distribution := Some t\<rparr>
                | None \<Rightarrow> s1)
      in s2\<lparr>solving_modal := False\<rparr>)"

section \<open>The material model\<close>

text \<open>
  Lines 72-73 (and 80-81, 99-100): the two material constants, read from the dictionary.
\<close>

definition material_constants :: "solver \<Rightarrow> error + (real \<times> real)" where
  "material_constants s =
     (case getitem (material s) ''elastic_modulus'' of
        Inl e \<Rightarrow> Inl e
      | Inr elasticity \<Rightarrow>
          (case getitem (material s) ''poisson_ratio'' of
             Inl e \<Rightarrow> Inl e
           | Inr nu \<Rightarrow> Inr (elasticity, nu)))"

text \<open>
  Lines 74-75 (and 82-83, 101-102): the shear modulus and the Lame parameter. Python
  raises \<^verbatim>\<open>ZeroDivisionError\<close> on a zero divisor; \<open>mu\<close> is computed first.
\<close>

definition lame_parameters :: "real \<Rightarrow> real \<Rightarrow> error + (real \<times> real)" where
  "lame_parameters elasticity nu =
     (if 2 * (1 + nu) = 0 then Inl ZeroDivisionError
      else if (1 + nu) * (1 - 2 * nu) = 0 then Inl ZeroDivisionError
      else Inr (elasticity / (2 * (1 + nu)),
                elasticity * nu / ((1 + nu) * (1 - 2 * nu))))"

text \<open>
  Second-order tensors at a point, by components, and the UFL operators on them that the
  class uses: \<^verbatim>\<open>sym\<close>, \<^verbatim>\<open>tr\<close>, \<^verbatim>\<open>Identity\<close> and \<^verbatim>\<open>inner\<close>.
\<close>

type_synonym tensor = "nat \<Rightarrow> nat \<Rightarrow> real"

definition sym_part :: "tensor \<Rightarrow> tensor" where
  "sym_part A = (\<lambda>i j. (A i j + A j i) / 2)"

definition tr :: "nat \<Rightarrow> tensor \<Rightarrow> real" where
  "tr d A = (\<Sum>i<d. A i i)"

definition Identity :: "nat \<Rightarrow> tensor" where
  "Identity d = (\<lambda>i j. if i = j then 1 else 0)"

definition inner :: "nat \<Rightarrow> tensor \<Rightarrow> tensor \<Rightarrow> real" where
  "inner d A B = (\<Sum>i<d. \<Sum>j<d. A i j * B i j)"

text \<open>
  A displacement field over points of type \<open>'x\<close>: its number of components \<^verbatim>\<open>len(u)\<close> and its
  gradient \<^verbatim>\<open>grad(u)\<close>, which the library provides.
\<close>

record 'x displacement =
  len :: nat
  grad :: "'x \<Rightarrow> tensor"

text \<open>\<^verbatim>\<open>sigma\<close> (lines 71-76).\<close>

definition sigma :: "solver \<Rightarrow> 'x displacement \<Rightarrow> error + ('x \<Rightarrow> tensor)" where
  "sigma s u =
     (case material_constants s of
        Inl e \<Rightarrow> Inl e
      | Inr (elasticity, nu) \<Rightarrow>
          (case lame_parameters elasticity nu of
             Inl e \<Rightarrow> Inl e
           | Inr (mu, lmbda) \<Rightarrow>
               Inr (\<lambda>x i j. 2 * mu * sym_part (grad u x) i j
                        + lmbda * tr (len u) (sym_part (grad u x)) * Identity (len u) i j)))"

text \<open>
  \<^verbatim>\<open>von_Mises\<close> (lines 86-91). \<open>project\<close> is the library's projection onto the scalar space
  \<^verbatim>\<open>FunctionSpace(mesh, 'P', 1)\<close>. UFL refuses to subtract tensors of different shapes, which
  happens when \<^verbatim>\<open>len(u)\<close> differs from \<^verbatim>\<open>self.dimension\<close>.
\<close>

definition von_Mises ::
  "(('x \<Rightarrow> real) \<Rightarrow> ('x \<Rightarrow> real)) \<Rightarrow> solver \<Rightarrow> 'x displacement \<Rightarrow> error + ('x \<Rightarrow> real)" where
  "von_Mises project s u =
     (case sigma s u of
        Inl e \<Rightarrow> Inl e
      | Inr sg \<Rightarrow>
          if len u = dimension s
          then Inr (project (\<lambda>x.
                 sqrt (3 / 2 *
                   inner (dimension s)
                     (\<lambda>i j. sg x i j - (1 / 3) * tr (len u) (sg x) * Identity (dimension s) i j)
                     (\<lambda>i j. sg x i j - (1 / 3) * tr (len u) (sg x) * Identity (dimension s) i j))))
          else Inl (UFLException ''Can't add expressions with different shapes.''))"

section \<open>Weak forms, constraints and facet marks\<close>

text \<open>
  The traction \<open>g\<close> of a boundary term: a value as it was supplied (a Python number, after
  a division of numbers, is again a number), or the UFL quotient of a \<^verbatim>\<open>Constant\<close> or an
  \<^verbatim>\<open>Expression\<close> by a number.
\<close>

datatype traction = Value pyobj | Division pyobj real

text \<open>
  The shape UFL gives a value when it takes it as an operand (\<^verbatim>\<open>as_ufl\<close>): a number is a
  scalar, a \<^verbatim>\<open>Constant\<close> or an \<^verbatim>\<open>Expression\<close> has the shape of its components, and \<^verbatim>\<open>None\<close> or
  a Python list is refused. The quotient of a \<^verbatim>\<open>Constant\<close> or an \<^verbatim>\<open>Expression\<close> by a number
  keeps the shape.
\<close>

datatype shape = Scalar | Vector nat

fun ufl_shape :: "pyobj \<Rightarrow> error + shape" where
  "ufl_shape PyNone = Inl (UFLException ''Invalid type conversion'')"
| "ufl_shape (Num r) = Inr Scalar"
| "ufl_shape (Constant c) = Inr (if length c = 1 then Scalar else Vector (length c))"
| "ufl_shape (Expression e) = Inr (if length e = 1 then Scalar else Vector (length e))"
| "ufl_shape (PerAxis xs) = Inl (UFLException ''Invalid type conversion'')"

fun traction_shape :: "traction \<Rightarrow> error + shape" where
  "traction_shape (Value x) = ufl_shape x"
| "traction_shape (Division x a) = ufl_shape x"

text \<open>
  The integrands the class builds, over the trial function \<open>u\<close> and the test function \<open>v\<close>:
  \<^verbatim>\<open>inner(sigma(u), grad(v))\<close> with its two coefficients \<open>mu\<close> and \<open>lmbda\<close>,
  \<^verbatim>\<open>inner(body_source, v)\<close>, \<^verbatim>\<open>inner(elasticity * grad(T - Constant(T_ref)), v)\<close> and
  \<^verbatim>\<open>dot(g, v)\<close>. The measures are \<^verbatim>\<open>dx\<close> and \<^verbatim>\<open>ds(i)\<close>. A form is the list of its integrals, in
  the order in which they were added.
\<close>

datatype integrand =
    Stiffness real real
  | BodyLoad pyobj
  | ThermalLoad real pyobj real
  | BoundaryLoad traction

datatype measure = dx | ds nat

type_synonym form = "(integrand \<times> measure) list"

text \<open>
  \<^verbatim>\<open>DirichletBC(space, value, boundary_facets, i)\<close>, on the whole space \<open>V\<close> or on the
  component \<^verbatim>\<open>V.sub(axis)\<close>; every constraint shares the one \<^verbatim>\<open>boundary_facets\<close>.
\<close>

datatype space = V | Vsub nat

datatype dirichlet = DirichletBC space pyobj nat

text \<open>
  \<^verbatim>\<open>boundary_facets\<close> holds one mark for each facet. \<^verbatim>\<open>subdomain.mark(boundary_facets, i)\<close>
  writes \<open>i\<close> at every facet the subdomain selects and leaves the others as they are.
  Lines 116-120 start with all marks 0 and mark the boundaries in the order of the
  dictionary.
\<close>

definition mark :: "nat list \<Rightarrow> nat \<Rightarrow> nat list \<Rightarrow> nat list" where
  "mark selected i boundary_facets =
     map (\<lambda>(f, m). if f \<in> set selected then i else m) (enumerate 0 boundary_facets)"

fun mark_all :: "(string \<times> bc) list \<Rightarrow> nat list \<Rightarrow> nat list" where
  "mark_all [] boundary_facets = boundary_facets"
| "mark_all ((name, b) # rest) boundary_facets =
     mark_all rest (mark (boundary b) (boundary_id b) boundary_facets)"

text \<open>
  \<^verbatim>\<open>assemble(Constant(1)*ds(i, domain=mesh))\<close>: the sum of the areas of the facets marked \<open>i\<close>.
\<close>

definition assemble_area :: "real list \<Rightarrow> nat list \<Rightarrow> nat \<Rightarrow> real" where
  "assemble_area facet_areas boundary_facets i =
     sum_list (map (\<lambda>(a, m). if m = i then a else 0) (zip facet_areas boundary_facets))"

section \<open>Assembly of the weak form\<close>

text \<open>
  Lines 135-140: the loop over a per-axis value. The test \<^verbatim>\<open>if disp:\<close> is Python's truth
  test, so it skips \<^verbatim>\<open>None\<close> and it skips zero.
\<close>

fun axis_constraints :: "nat \<Rightarrow> nat \<Rightarrow> real option list \<Rightarrow> dirichlet list" where
  "axis_constraints i axis_i [] = []"
| "axis_constraints i axis_i (disp # rest) =
     (case disp of
        None \<Rightarrow> []
      | Some r \<Rightarrow> if r \<noteq> 0 then [DirichletBC (Vsub axis_i) (Constant [r]) i] else [])
     @ axis_constraints i (axis_i + 1) rest"

text \<open>
  Lines 147-150 and 153-156: the direction of a natural boundary condition, the supplied
  one when the key is present and its value is true, the facet normal of the mesh
  otherwise.
\<close>

datatype direction_vector = Supplied pyobj | FacetNormal

definition direction_of :: "bc \<Rightarrow> direction_vector" where
  "direction_of b =
     (case direction b of
        None \<Rightarrow> FacetNormal
      | Some d \<Rightarrow> if truthy d then Supplied d else FacetNormal)"

text \<open>The message of lines 160 and 162.\<close>

definition not_supported :: "string \<Rightarrow> string" where
  "not_supported t = ''thermal boundary type`'' @ t @ ''` is not supported''"

text \<open>
  Line 146: \<^verbatim>\<open>g = bc_force / bc_area\<close>, where the area is a Python float. Python divides two
  numbers and raises \<^verbatim>\<open>ZeroDivisionError\<close> on a zero divisor; UFL builds the quotient of a
  \<^verbatim>\<open>Constant\<close> or an \<^verbatim>\<open>Expression\<close> and refuses a zero divisor; \<^verbatim>\<open>None\<close> and a list have no
  division.
\<close>

definition truediv :: "pyobj \<Rightarrow> real \<Rightarrow> error + traction" where
  "truediv bc_force bc_area =
     (case bc_force of
        Num f \<Rightarrow>
          if bc_area = 0 then Inl ZeroDivisionError else Inr (Value (Num (f / bc_area)))
      | Constant c \<Rightarrow>
          if bc_area = 0 then Inl (UFLException ''Division by zero!'')
          else Inr (Division bc_force bc_area)
      | Expression e \<Rightarrow>
          if bc_area = 0 then Inl (UFLException ''Division by zero!'')
          else Inr (Division bc_force bc_area)
      | PerAxis xs \<Rightarrow> Inl (TypeError ''unsupported operand type(s) for /'')
      | PyNone \<Rightarrow> Inl (TypeError ''unsupported operand type(s) for /''))"

text \<open>
  Lines 151 and 158: \<^verbatim>\<open>dot(g, v)\<close>, where \<open>v\<close> is the test function of the vector space \<open>V\<close>
  and has \<open>d\<close> components. UFL converts \<open>g\<close>, refuses a scalar beside a vector, and refuses
  two vectors of different lengths.
\<close>

definition dot :: "traction \<Rightarrow> nat \<Rightarrow> error + integrand" where
  "dot g d =
     (case traction_shape g of
        Inl e \<Rightarrow> Inl e
      | Inr Scalar \<Rightarrow>
          Inl (UFLException
            ''Dot product requires non-scalar arguments, got arguments with ranks 0 and 1.'')
      | Inr (Vector n) \<Rightarrow>
          if n = d then Inr (BoundaryLoad g)
          else Inl (UFLException ''Dimension mismatch in dot product.''))"

text \<open>
  Lines 129-162: one pass of the loop over the boundary conditions. \<open>integrals_F\<close> and \<open>bcs\<close>
  are the two lists the loop appends to, and \<open>d\<close> is the number of components of the test
  function. In the two natural branches the local variable \<^verbatim>\<open>direction_vector\<close> is assigned
  and never read.
\<close>

definition apply_bc ::
  "nat \<Rightarrow> real list \<Rightarrow> nat list \<Rightarrow> bc \<Rightarrow> form \<times> dirichlet list
     \<Rightarrow> error + (form \<times> dirichlet list)" where
  "apply_bc d facet_areas boundary_facets b acc =
     (case acc of (integrals_F, bcs) \<Rightarrow>
      let i = boundary_id b in
      if bc_type b = ''Dirichlet'' \<or> bc_type b = ''displacement'' then
        (case bc_value b of
           Expression e \<Rightarrow> Inr (integrals_F, bcs @ [DirichletBC V (bc_value b) i])
         | Constant c \<Rightarrow> Inr (integrals_F, bcs @ [DirichletBC V (bc_value b) i])
         | PerAxis xs \<Rightarrow> Inr (integrals_F, bcs @ axis_constraints i 0 xs)
         | Num r \<Rightarrow> Inl (TypeError ''object is not iterable'')
         | PyNone \<Rightarrow> Inl (TypeError ''object is not iterable''))
      else if bc_type b = ''force'' then
        (let bc_force = bc_value b;
             bc_area = assemble_area facet_areas boundary_facets (boundary_id b)
         in case truediv bc_force bc_area of
              Inl e \<Rightarrow> Inl e
            | Inr g \<Rightarrow>
                (let direction_vector = direction_of b
                 in case dot g d of
                      Inl e \<Rightarrow> Inl e
                    | Inr integral \<Rightarrow> Inr (integrals_F @ [(integral, ds i)], bcs)))
      else if bc_type b = ''stress'' \<or> bc_type b = ''Neumann'' then
        (let direction_vector = direction_of b;
             g = Value (bc_value b)
         in case dot g d of
              Inl e \<Rightarrow> Inl e
            | Inr integral \<Rightarrow> Inr (integrals_F @ [(integral, ds i)], bcs))
      else if bc_type b = ''symmetry'' then
        Inl (SolverError (not_supported (bc_type b)))
      else
        Inl (SolverError (not_supported (bc_type b))))"

text \<open>Lines 128-162: the loop; an exception ends it.\<close>

fun bc_loop ::
  "nat \<Rightarrow> real list \<Rightarrow> nat list \<Rightarrow> (string \<times> bc) list \<Rightarrow> form \<times> dirichlet list
     \<Rightarrow> error + (form \<times> dirichlet list)" where
  "bc_loop d facet_areas boundary_facets [] acc = Inr acc"
| "bc_loop d facet_areas boundary_facets ((name, b) # rest) acc =
     (case apply_bc d facet_areas boundary_facets b acc of
        Inl e \<Rightarrow> Inl e
      | Inr acc' \<Rightarrow> bc_loop d facet_areas boundary_facets rest acc')"

text \<open>
  Lines 104-113: the domain integrals that come before the boundary terms. Reading
  \<^verbatim>\<open>self.temperature_distribution\<close> raises \<^verbatim>\<open>AttributeError\<close> when the object has no such
  attribute.
\<close>

definition load_integrals :: "(pyobj \<Rightarrow> pyobj) \<Rightarrow> solver \<Rightarrow> real \<Rightarrow> error + form" where
  "load_integrals translate_value s elasticity =
     (let integrals_F = (if truthy (body_source s) then [(BodyLoad (body_source s), dx)] else [])
      in case temperature_distribution s of
           None \<Rightarrow> Inl (AttributeError ''temperature_distribution'')
         | Some td \<Rightarrow>
             if truthy td then
               (case getitem (reference_values s) ''temperature'' of
                  Inl e \<Rightarrow> Inl e
                | Inr t_ref \<Rightarrow>
                    Inr (integrals_F @ [(ThermalLoad elasticity (translate_value td) t_ref, dx)]))
             else Inr integrals_F)"

text \<open>
  \<^verbatim>\<open>update_boundary_conditions\<close> (lines 93-170). Its arguments \<^verbatim>\<open>u_0\<close> and \<^verbatim>\<open>u_1\<close> are not read,
  and \<^verbatim>\<open>time_iter_\<close> only decides whether the marks are plotted. The test function of the
  vector space over the mesh has as many components as the problem has dimensions, the
  number by which the constructor sizes the default body force. The result is the form
  \<open>F\<close>, the stiffness term followed by the collected integrals, and the list \<open>bcs\<close>.
\<close>

definition update_boundary_conditions ::
  "(pyobj \<Rightarrow> pyobj) \<Rightarrow> solver \<Rightarrow> error + (form \<times> dirichlet list)" where
  "update_boundary_conditions translate_value s =
     (case material_constants s of
        Inl e \<Rightarrow> Inl e
      | Inr (elasticity, nu) \<Rightarrow>
          (case lame_parameters elasticity nu of
             Inl e \<Rightarrow> Inl e
           | Inr (mu, lmbda) \<Rightarrow>
               (case load_integrals translate_value s elasticity of
                  Inl e \<Rightarrow> Inl e
                | Inr integrals_F \<Rightarrow>
                    (let boundary_facets =
                           mark_all (boundary_conditions s) (replicate (length (mesh s)) 0)
                     in case bc_loop (dimension s) (mesh s) boundary_facets
                               (boundary_conditions s) (integrals_F, []) of
                          Inl e \<Rightarrow> Inl e
                        | Inr (integrals_F', bcs) \<Rightarrow>
                            Inr ((Stiffness mu lmbda, dx) # integrals_F', bcs)))))"

section \<open>The solve dispatcher\<close>

text \<open>
  \<^verbatim>\<open>solve\<close> (lines 172-178). \<open>solve_transient\<close> is the method of \<^verbatim>\<open>SolverBase\<close>. The names
  \<^verbatim>\<open>F\<close> and \<^verbatim>\<open>bcs\<close> of line 176 are bound neither in the body of \<^verbatim>\<open>solve\<close> nor at module
  level, so evaluating the first argument of the call raises \<^verbatim>\<open>NameError\<close>.
\<close>

definition solve :: "(solver \<Rightarrow> error + 'u) \<Rightarrow> solver \<Rightarrow> error + 'u" where
  "solve solve_transient s =
     (case solve_transient s of
        Inl e \<Rightarrow> Inl e
      | Inr u \<Rightarrow> if solving_modal s then Inl (NameError ''F'') else Inr u)"

section \<open>Concrete configurations\<close>

text \<open>
  A cube of six unit faces (facets 0 to 5) with elastic modulus 26 and Poisson ratio 0.3,
  so that \<open>mu = 10\<close> and \<open>lmbda = 15\<close>; no body force; the attribute
  \<^verbatim>\<open>temperature_distribution\<close> is present and holds \<^verbatim>\<open>None\<close>, as the constructor leaves it
  for case settings that hold \<^verbatim>\<open>None\<close> under that key.
\<close>

definition cube :: solver where
  "cube = \<lparr>material = [(''elastic_modulus'', 26), (''poisson_ratio'', 3 / 10)],
           dimension = 3,
           body_source = Constant [0, 0, 0],
           temperature_distribution = Some PyNone,
           thermal_stress = Some True,
           reference_values = [(''temperature'', 293)],
           boundary_conditions = [],
           solving_modal = False,
           mesh = [1, 1, 1, 1, 1, 1]\<rparr>"

text \<open>A field in three dimensions whose gradient is \<open>c\<close> times the identity at every point.\<close>

definition dilation :: "real \<Rightarrow> unit displacement" where
  "dilation c = \<lparr>len = 3, grad = (\<lambda>x i j. if i = j then c else 0)\<rparr>"

text \<open>
  Boundary conditions on the faces of the cube: a resultant force of 1000 on face 5, given
  as a number, a resultant force on the faces 4 and 5, given as a vector, a traction on
  face 5, a clamp on face 0, a per-axis displacement on face 0 that prescribes
  0 along the first axis, leaves the second free and prescribes 0.01 along the third, and
  a symmetry condition on face 3.
\<close>

definition pull :: bc where
  "pull = \<lparr>boundary = [5], boundary_id = 2, bc_type = ''force'',
           bc_value = Num 1000, direction = None\<rparr>"

definition haul :: bc where
  "haul = \<lparr>boundary = [4, 5], boundary_id = 2, bc_type = ''force'',
           bc_value = Constant [0, 0, 1000], direction = None\<rparr>"

definition press :: bc where
  "press = \<lparr>boundary = [5], boundary_id = 2, bc_type = ''stress'',
            bc_value = Constant [0, 0, - 1000000], direction = None\<rparr>"

definition clamp :: bc where
  "clamp = \<lparr>boundary = [0], boundary_id = 1, bc_type = ''Dirichlet'',
            bc_value = Constant [0, 0, 0], direction = None\<rparr>"

definition roller :: bc where
  "roller = \<lparr>boundary = [0], boundary_id = 1, bc_type = ''displacement'',
             bc_value = PerAxis [Some 0, None, Some (1 / 100)], direction = None\<rparr>"

definition mirror :: bc where
  "mirror = \<lparr>boundary = [3], boundary_id = 3, bc_type = ''symmetry'',
             bc_value = PyNone, direction = None\<rparr>"

section \<open>The material model: results\<close>

lemma lame_parameters_cases:
  "lame_parameters E nu =
     (if nu = - 1 \<or> nu = 1 / 2 then Inl ZeroDivisionError
      else Inr (E / (2 * (1 + nu)), E * nu / ((1 + nu) * (1 - 2 * nu))))"
  unfolding lame_parameters_def by (auto simp: add_eq_0_iff2)

lemma material_constants_eq:
  "map_of (material s) ''elastic_modulus'' = Some E \<Longrightarrow>
   map_of (material s) ''poisson_ratio'' = Some nu \<Longrightarrow>
   material_constants s = Inr (E, nu)"
  by (simp add: material_constants_def getitem_def)

lemma tr_dilation: "(\<And>i. i < d \<Longrightarrow> A i i = c) \<Longrightarrow> tr d A = real d * c"
  unfolding tr_def by simp

text \<open>
  C1. When the material dictionary holds \<open>E\<close> and \<open>nu\<close>, and \<open>nu\<close> is neither \<open>-1\<close> nor
  \<open>1/2\<close> (where the two quotients are not defined), \<^verbatim>\<open>sigma(u)\<close> returns
  \<open>2 mu sym(grad u) + lmbda tr(sym(grad u)) I\<close> with \<open>mu = E / (2 (1 + nu))\<close> and
  \<open>lmbda = E nu / ((1 + nu) (1 - 2 nu))\<close>. Wherever the strain is the dilation \<open>c I\<close>, the
  stress is \<open>c (2 mu + d lmbda) I\<close>, \<open>d = len(u)\<close> being the dimension.
\<close>

theorem sigma_isotropic_law:
  assumes E: "map_of (material s) ''elastic_modulus'' = Some E"
    and nu: "map_of (material s) ''poisson_ratio'' = Some nu"
    and regular: "nu \<noteq> - 1" "nu \<noteq> 1 / 2"
  shows "\<exists>sg. sigma s u = Inr sg
    \<and> (\<forall>x i j. sg x i j =
          2 * (E / (2 * (1 + nu))) * sym_part (grad u x) i j
          + E * nu / ((1 + nu) * (1 - 2 * nu)) * tr (len u) (sym_part (grad u x))
            * Identity (len u) i j)
    \<and> (\<forall>c x. (\<forall>i<len u. \<forall>j<len u. sym_part (grad u x) i j = c * Identity (len u) i j) \<longrightarrow>
          (\<forall>i<len u. \<forall>j<len u. sg x i j =
             c * (2 * (E / (2 * (1 + nu))) + real (len u) * (E * nu / ((1 + nu) * (1 - 2 * nu))))
             * Identity (len u) i j))"
proof -
  let ?mu = "E / (2 * (1 + nu))"
  let ?lmbda = "E * nu / ((1 + nu) * (1 - 2 * nu))"
  let ?sg = "\<lambda>x i j. 2 * ?mu * sym_part (grad u x) i j
                + ?lmbda * tr (len u) (sym_part (grad u x)) * Identity (len u) i j"
  have run: "sigma s u = Inr ?sg"
    using regular by (simp add: sigma_def material_constants_eq [OF E nu] lame_parameters_cases)
  have dil: "?sg x i j = c * (2 * ?mu + real (len u) * ?lmbda) * Identity (len u) i j"
    if eps: "\<forall>i<len u. \<forall>j<len u. sym_part (grad u x) i j = c * Identity (len u) i j"
      and i: "i < len u" and j: "j < len u" for c x i j
  proof -
    have diag: "sym_part (grad u x) k k = c" if "k < len u" for k
      using eps that by (simp add: Identity_def)
    have "tr (len u) (sym_part (grad u x)) = real (len u) * c"
      by (rule tr_dilation) (rule diag)
    moreover have "sym_part (grad u x) i j = c * Identity (len u) i j"
      using eps i j by simp
    ultimately show ?thesis
      by (simp add: algebra_simps)
  qed
  show ?thesis
    using run dil by (intro exI [of _ ?sg]) blast
qed

theorem sigma_isotropic_law_witness:
  "\<exists>sg. sigma cube (dilation 2) = Inr sg \<and> sg () 0 0 = 130 \<and> sg () 0 1 = 0 \<and> sg () 2 2 = 130"
proof -
  have eps: "\<forall>i<len (dilation 2). \<forall>j<len (dilation 2).
      sym_part (grad (dilation 2) ()) i j = 2 * Identity (len (dilation 2)) i j"
    by (simp add: dilation_def sym_part_def Identity_def)
  obtain sg where sg: "sigma cube (dilation 2) = Inr sg"
    and dil: "\<forall>c x. (\<forall>i<len (dilation 2). \<forall>j<len (dilation 2).
          sym_part (grad (dilation 2) x) i j = c * Identity (len (dilation 2)) i j) \<longrightarrow>
        (\<forall>i<len (dilation 2). \<forall>j<len (dilation 2). sg x i j =
           c * (2 * (26 / (2 * (1 + 3 / 10)))
                + real (len (dilation 2)) * (26 * (3 / 10) / ((1 + 3 / 10) * (1 - 2 * (3 / 10)))))
           * Identity (len (dilation 2)) i j)"
    using sigma_isotropic_law [of cube 26 "3 / 10" "dilation 2"]
    by (auto simp: cube_def)
  from dil eps have "\<forall>i<len (dilation 2). \<forall>j<len (dilation 2). sg () i j =
           2 * (2 * (26 / (2 * (1 + 3 / 10)))
                + real (len (dilation 2)) * (26 * (3 / 10) / ((1 + 3 / 10) * (1 - 2 * (3 / 10)))))
           * Identity (len (dilation 2)) i j"
    by blast
  then have "sg () 0 0 = 130 \<and> sg () 0 1 = 0 \<and> sg () 2 2 = 130"
    by (simp add: dilation_def Identity_def)
  with sg show ?thesis by blast
qed

text \<open>
  C6, as the code has it. The computation of lines 74-75 validates nothing. For \<open>nu\<close> in the
  open interval from \<open>-1\<close> to \<open>1/2\<close> and \<open>E > 0\<close> it returns \<open>mu > 0\<close> and \<open>lmbda\<close>; for
  \<open>nu = -1\<close> and for \<open>nu = 1/2\<close> the division itself raises \<^verbatim>\<open>ZeroDivisionError\<close>; for every
  other \<open>nu\<close>, and for every \<open>E\<close>, it returns the two quotients.
\<close>

theorem lame_parameters_unvalidated:
  "(- 1 < nu \<and> nu < 1 / 2 \<and> 0 < E \<longrightarrow>
      (\<exists>mu lmbda. lame_parameters E nu = Inr (mu, lmbda) \<and> 0 < mu
         \<and> mu = E / (2 * (1 + nu)) \<and> lmbda = E * nu / ((1 + nu) * (1 - 2 * nu))))
   \<and> (nu = - 1 \<or> nu = 1 / 2 \<longrightarrow> lame_parameters E nu = Inl ZeroDivisionError)
   \<and> (nu \<noteq> - 1 \<and> nu \<noteq> 1 / 2 \<longrightarrow>
        lame_parameters E nu = Inr (E / (2 * (1 + nu)), E * nu / ((1 + nu) * (1 - 2 * nu))))"
  by (simp add: lame_parameters_cases)

theorem lame_parameters_unvalidated_witness:
  "lame_parameters 26 (3 / 10) = Inr (10, 15)
   \<and> lame_parameters 26 (1 / 2) = Inl ZeroDivisionError
   \<and> lame_parameters 26 (- 1) = Inl ZeroDivisionError
   \<and> lame_parameters (- 2) 0 = Inr (- 1, 0)"
  using lame_parameters_unvalidated [of "3 / 10" 26]
    lame_parameters_unvalidated [of "1 / 2" 26]
    lame_parameters_unvalidated [of "- 1" 26]
    lame_parameters_unvalidated [of 0 "- 2"]
  by simp

text \<open>
  C6 as stated fails: a Poisson ratio of 0.6 lies outside the interval, and the computation
  returns a value for it; at 0.5 the exception is Python's \<^verbatim>\<open>ZeroDivisionError\<close>.
\<close>

theorem lame_parameters_counterexample:
  "lame_parameters 1 (3 / 5) = Inr (5 / 16, - (15 / 8))
   \<and> lame_parameters 1 (1 / 2) = Inl ZeroDivisionError"
  by (simp add: lame_parameters_def)

section \<open>The stress post-processor: results\<close>

lemma inner_zero: "(\<And>i j. i < d \<Longrightarrow> j < d \<Longrightarrow> A i j = 0) \<Longrightarrow> inner d A B = 0"
  unfolding inner_def by simp

lemma tr_zero: "(\<And>i. i < d \<Longrightarrow> A i i = 0) \<Longrightarrow> tr d A = 0"
  unfolding tr_def by simp

text \<open>
  C9. For a valid material and a field whose number of components is the dimension of the
  solver, \<^verbatim>\<open>von_Mises(u)\<close> returns the projection of \<open>sqrt (3/2 <s, s>)\<close>, where
  \<open>s = sigma(u) - (1/3) tr(sigma(u)) I\<close>. For a field with zero gradient the projected
  expression is zero at every point, so the result is the zero field as soon as the
  library's projection maps the zero expression to the zero field.
\<close>

theorem von_Mises_deviatoric:
  assumes E: "map_of (material s) ''elastic_modulus'' = Some E"
    and nu: "map_of (material s) ''poisson_ratio'' = Some nu"
    and regular: "nu \<noteq> - 1" "nu \<noteq> 1 / 2"
    and shape: "len u = dimension s"
  shows "\<exists>sg. sigma s u = Inr sg
    \<and> von_Mises project s u =
        Inr (project (\<lambda>x. sqrt (3 / 2 *
          inner (dimension s)
            (\<lambda>i j. sg x i j - (1 / 3) * tr (len u) (sg x) * Identity (dimension s) i j)
            (\<lambda>i j. sg x i j - (1 / 3) * tr (len u) (sg x) * Identity (dimension s) i j))))
    \<and> ((\<forall>x. \<forall>i<len u. \<forall>j<len u. grad u x i j = 0) \<and> project (\<lambda>x. 0) = (\<lambda>x. 0) \<longrightarrow>
          von_Mises project s u = Inr (\<lambda>x. 0))"
proof -
  define sg where "sg = (\<lambda>x i j. 2 * (E / (2 * (1 + nu))) * sym_part (grad u x) i j
      + E * nu / ((1 + nu) * (1 - 2 * nu)) * tr (len u) (sym_part (grad u x))
        * Identity (len u) i j)"
  define dev where
    "dev = (\<lambda>x i j. sg x i j - (1 / 3) * tr (len u) (sg x) * Identity (dimension s) i j)"
  have run: "sigma s u = Inr sg"
    using regular
    by (simp add: sigma_def material_constants_eq [OF E nu] lame_parameters_cases sg_def)
  have vm: "von_Mises project s u =
      Inr (project (\<lambda>x. sqrt (3 / 2 * inner (dimension s) (dev x) (dev x))))"
    using shape by (simp add: von_Mises_def run dev_def)
  have rest: "von_Mises project s u = Inr (\<lambda>x. 0)"
    if zero: "\<forall>x. \<forall>i<len u. \<forall>j<len u. grad u x i j = 0"
      and proj: "project (\<lambda>x. 0) = (\<lambda>x. 0)"
  proof -
    have eps: "sym_part (grad u x) i j = 0" if "i < len u" "j < len u" for x i j
      using zero that by (simp add: sym_part_def)
    have treps: "tr (len u) (sym_part (grad u x)) = 0" for x
      by (rule tr_zero) (simp add: eps)
    have sg0: "sg x i j = 0" if "i < len u" "j < len u" for x i j
      using that by (simp add: sg_def eps treps)
    have trsg: "tr (len u) (sg x) = 0" for x
      by (rule tr_zero) (simp add: sg0)
    have dev0: "dev x i j = 0" if "i < dimension s" "j < dimension s" for x i j
      using that by (simp add: dev_def trsg sg0 shape [symmetric])
    have "inner (dimension s) (dev x) (dev x) = 0" for x
      by (rule inner_zero) (rule dev0)
    then have "(\<lambda>x. sqrt (3 / 2 * inner (dimension s) (dev x) (dev x))) = (\<lambda>x. 0)"
      by simp
    with vm proj show ?thesis
      by simp
  qed
  show ?thesis
    using run vm rest unfolding dev_def by (intro exI [of _ sg]) blast
qed

theorem von_Mises_deviatoric_witness:
  "von_Mises id cube (dilation 0) = Inr (\<lambda>x. 0)"
proof -
  have "id (\<lambda>x::unit. 0::real) = (\<lambda>x. 0)"
    by simp
  moreover have "\<forall>x. \<forall>i<len (dilation 0). \<forall>j<len (dilation 0). grad (dilation 0) x i j = 0"
    by (simp add: dilation_def)
  moreover have "len (dilation 0) = dimension cube"
    by (simp add: dilation_def cube_def)
  moreover have "map_of (material cube) ''elastic_modulus'' = Some 26"
    "map_of (material cube) ''poisson_ratio'' = Some (3 / 10)"
    by (simp_all add: cube_def)
  ultimately show ?thesis
    using von_Mises_deviatoric [of cube 26 "3 / 10" "dilation 0" id]
    by auto
qed

section \<open>The solve dispatcher: results\<close>

text \<open>
  C8. With the modal flag set, \<^verbatim>\<open>solve\<close> assembles nothing: after the transient solve has
  returned, line 176 reads the unbound name \<^verbatim>\<open>F\<close> and the call ends with \<^verbatim>\<open>NameError\<close>;
  \<^verbatim>\<open>solve_modal\<close> is never entered.
\<close>

theorem solve_modal_unbound_names:
  "solve Inr (cube\<lparr>solving_modal := True\<rparr>) = Inl (NameError ''F'')"
  by (simp add: solve_def)

text \<open>The same for every solver and every transient solve: a modal request never returns.\<close>

lemma solve_modal_never_returns:
  "solving_modal s \<Longrightarrow> solve solve_transient s = Inr u \<Longrightarrow> False"
  by (simp add: solve_def split: sum.splits)

section \<open>Assembly: the thermal attribute\<close>


lemma init_material [simp]: "material (init tv base cs) = material base"
  by (simp add: init_def Let_def split: option.splits)



section \<open>Assembly: the boundary conditions\<close>

text \<open>The definitions that a concrete assembly unfolds.\<close>

lemmas assembly_defs =
  update_boundary_conditions_def material_constants_def getitem_def lame_parameters_def
  load_integrals_def mark_def apply_bc_def assemble_area_def direction_of_def not_supported_def
  truediv_def dot_def

lemma bc_loop_append:
  "bc_loop d fa bf (xs @ ys) acc =
     (case bc_loop d fa bf xs acc of Inl e \<Rightarrow> Inl e | Inr acc' \<Rightarrow> bc_loop d fa bf ys acc')"
  by (induction xs arbitrary: acc) (auto split: sum.splits)

lemma apply_bc_unsupported:
  assumes "bc_type b \<noteq> ''Dirichlet''" "bc_type b \<noteq> ''displacement''" "bc_type b \<noteq> ''force''"
    "bc_type b \<noteq> ''stress''" "bc_type b \<noteq> ''Neumann''"
  shows "apply_bc d fa bf b acc = Inl (SolverError (not_supported (bc_type b)))"
  using assms by (simp add: apply_bc_def split: prod.splits)

lemma bc_loop_unsupported_fails:
  assumes "(name, b) \<in> set bcs"
    and "apply_bc d fa bf b = (\<lambda>acc. Inl e)"
  shows "\<exists>e'. bc_loop d fa bf bcs acc = Inl e'"
  using assms
proof (induction bcs arbitrary: acc)
  case Nil
  then show ?case by simp
next
  case (Cons x bcs)
  obtain n c where x: "x = (n, c)" by (cases x)
  show ?case
  proof (cases "apply_bc d fa bf c acc")
    case (Inl e0)
    then show ?thesis by (simp add: x)
  next
    case (Inr acc')
    with Cons.prems have "(name, b) \<in> set bcs"
      by (auto simp: x)
    from Cons.IH [OF this Cons.prems(2)] Inr show ?thesis
      by (simp add: x)
  qed
qed

text \<open>
  C5. A list of boundary conditions that holds an entry whose type is \<^verbatim>\<open>symmetry\<close>, or any
  type other than the five the loop handles, never yields a form or a constraint list: the
  assembly ends with an exception. When the statements before that entry run through (the
  material constants, the domain integrals and the entries that precede it), the exception
  is the \<^verbatim>\<open>SolverError\<close> of lines 160 and 162, whose message holds the offending type.
\<close>

theorem unsupported_type_rejected:
  assumes entry: "boundary_conditions s = pre @ (name, b) # post"
    and unsupported: "bc_type b \<noteq> ''Dirichlet''" "bc_type b \<noteq> ''displacement''"
      "bc_type b \<noteq> ''force''" "bc_type b \<noteq> ''stress''" "bc_type b \<noteq> ''Neumann''"
  shows "(\<exists>e. update_boundary_conditions translate_value s = Inl e)
    \<and> (\<forall>E nu mu lmbda integrals_F acc.
          material_constants s = Inr (E, nu)
          \<and> lame_parameters E nu = Inr (mu, lmbda)
          \<and> load_integrals translate_value s E = Inr integrals_F
          \<and> bc_loop (dimension s) (mesh s)
               (mark_all (boundary_conditions s) (replicate (length (mesh s)) 0)) pre
               (integrals_F, []) = Inr acc
          \<longrightarrow> update_boundary_conditions translate_value s =
                Inl (SolverError (''thermal boundary type`'' @ bc_type b @ ''` is not supported'')))"
proof -
  let ?bf = "mark_all (boundary_conditions s) (replicate (length (mesh s)) 0)"
  let ?d = "dimension s"
  have here: "apply_bc ?d (mesh s) ?bf b acc = Inl (SolverError (not_supported (bc_type b)))" for acc
    by (rule apply_bc_unsupported) (rule unsupported)+
  then have "apply_bc ?d (mesh s) ?bf b = (\<lambda>acc. Inl (SolverError (not_supported (bc_type b))))"
    by (intro ext)
  moreover have "(name, b) \<in> set (boundary_conditions s)"
    by (simp add: entry)
  ultimately have loop: "\<exists>e. bc_loop ?d (mesh s) ?bf (boundary_conditions s) acc = Inl e" for acc
    by (rule bc_loop_unsupported_fails [rotated])
  have fails: "\<exists>e. update_boundary_conditions translate_value s = Inl e"
  proof (cases "material_constants s")
    case (Inl e)
    then show ?thesis by (simp add: update_boundary_conditions_def)
  next
    case (Inr mc)
    obtain E nu where mc: "mc = (E, nu)" by (cases mc)
    show ?thesis
    proof (cases "lame_parameters E nu")
      case (Inl e)
      with Inr mc show ?thesis by (simp add: update_boundary_conditions_def)
    next
      case lame: (Inr ml)
      obtain mu lmbda where ml: "ml = (mu, lmbda)" by (cases ml)
      show ?thesis
      proof (cases "load_integrals translate_value s E")
        case (Inl e)
        with Inr mc lame ml show ?thesis by (simp add: update_boundary_conditions_def)
      next
        case load: (Inr I)
        from loop [of "(I, [])"] obtain e where
          "bc_loop ?d (mesh s) ?bf (boundary_conditions s) (I, []) = Inl e" ..
        with Inr mc lame ml load show ?thesis
          by (simp add: update_boundary_conditions_def)
      qed
    qed
  qed
  have named: "update_boundary_conditions translate_value s =
      Inl (SolverError (''thermal boundary type`'' @ bc_type b @ ''` is not supported''))"
    if "material_constants s = Inr (E, nu)" "lame_parameters E nu = Inr (mu, lmbda)"
      "load_integrals translate_value s E = Inr integrals_F"
      "bc_loop ?d (mesh s) ?bf pre (integrals_F, []) = Inr acc"
    for E nu mu lmbda integrals_F acc
  proof -
    have "bc_loop ?d (mesh s) ?bf (pre @ (name, b) # post) (integrals_F, [])
        = Inl (SolverError (not_supported (bc_type b)))"
      using that(4) by (simp add: bc_loop_append here)
    with that(1-3) show ?thesis
      by (simp add: update_boundary_conditions_def entry [symmetric] not_supported_def)
  qed
  from fails named show ?thesis
    by blast
qed

theorem unsupported_type_rejected_witness:
  "update_boundary_conditions id (cube\<lparr>boundary_conditions := [(''clamp'', clamp), (''mirror'', mirror)]\<rparr>)
     = Inl (SolverError ''thermal boundary type`symmetry` is not supported'')"
proof -
  let ?s = "cube\<lparr>boundary_conditions := [(''clamp'', clamp), (''mirror'', mirror)]\<rparr>"
  have entry: "boundary_conditions ?s = [(''clamp'', clamp)] @ (''mirror'', mirror) # []"
    by simp
  have unsupported: "bc_type mirror \<noteq> ''Dirichlet''" "bc_type mirror \<noteq> ''displacement''"
    "bc_type mirror \<noteq> ''force''" "bc_type mirror \<noteq> ''stress''" "bc_type mirror \<noteq> ''Neumann''"
    by (simp_all add: mirror_def)
  have before: "material_constants ?s = Inr (26, 3 / 10)
      \<and> lame_parameters 26 (3 / 10) = Inr (10, 15)
      \<and> load_integrals id ?s 26 = Inr [(BodyLoad (Constant [0, 0, 0]), dx)]
      \<and> bc_loop (dimension ?s) (mesh ?s)
           (mark_all (boundary_conditions ?s) (replicate (length (mesh ?s)) 0))
           [(''clamp'', clamp)] ([(BodyLoad (Constant [0, 0, 0]), dx)], [])
         = Inr ([(BodyLoad (Constant [0, 0, 0]), dx)], [DirichletBC V (Constant [0, 0, 0]) 1])"
    by (simp add: assembly_defs cube_def clamp_def mirror_def)
  from unsupported_type_rejected [OF entry unsupported, of id] before
  have "update_boundary_conditions id ?s =
      Inl (SolverError (''thermal boundary type`'' @ bc_type mirror @ ''` is not supported''))"
    by blast
  then show ?thesis
    by (simp add: mirror_def)
qed

lemma assemble_area_nonneg:
  "\<forall>a\<in>set fa. 0 \<le> a \<Longrightarrow> 0 \<le> assemble_area fa bf i"
  unfolding assemble_area_def
  by (rule sum_list_nonneg) (auto dest: set_zip_leftD)

lemma assemble_area_facets:
  "assemble_area fa bf i = (\<Sum>f<min (length fa) (length bf). if bf ! f = i then fa ! f else 0)"
  unfolding assemble_area_def
  by (auto simp: sum_list_sum_nth atLeast0LessThan intro!: sum.cong)

lemma apply_bc_force:
  "bc_type b = ''force'' \<Longrightarrow>
   apply_bc d fa bf b (integrals_F, bcs) =
     (case truediv (bc_value b) (assemble_area fa bf (boundary_id b)) of
        Inl e \<Rightarrow> Inl e
      | Inr g \<Rightarrow>
          (case dot g d of
             Inl e \<Rightarrow> Inl e
           | Inr integral \<Rightarrow> Inr (integrals_F @ [(integral, ds (boundary_id b))], bcs)))"
  by (simp add: apply_bc_def Let_def split: sum.splits)

lemma apply_bc_natural:
  "bc_type b = ''stress'' \<or> bc_type b = ''Neumann'' \<Longrightarrow>
   apply_bc d fa bf b (integrals_F, bcs) =
     (case dot (Value (bc_value b)) d of
        Inl e \<Rightarrow> Inl e
      | Inr integral \<Rightarrow> Inr (integrals_F @ [(integral, ds (boundary_id b))], bcs))"
  by (auto simp: apply_bc_def Let_def split: sum.splits)

text \<open>
  C2, as the code has it. For an entry of type \<^verbatim>\<open>force\<close> the area is the sum of the areas of
  the facets that carry the mark of the entry, and line 146 divides the force by it.
  Nothing tests the area: when it is zero the division itself fails, with Python's
  \<^verbatim>\<open>ZeroDivisionError\<close> for a number and with UFL's error for a \<^verbatim>\<open>Constant\<close> or an
  \<^verbatim>\<open>Expression\<close>, and nothing is appended. A force given as a vector of the dimension of the
  problem appends \<^verbatim>\<open>dot(g, v)*ds(i)\<close> with the quotient as \<open>g\<close>. A force given as a number is
  divided as well, but its quotient is a scalar, which \<^verbatim>\<open>dot\<close> refuses beside the vector
  \<open>v\<close>: line 151 raises and nothing is appended. Facets of non-negative area never give a
  negative area.
\<close>

theorem force_traction_quotient:
  assumes force: "bc_type b = ''force''"
  shows "(\<forall>bc_force. bc_value b = Num bc_force \<longrightarrow>
            truediv (bc_value b) (assemble_area fa bf (boundary_id b)) =
              (if assemble_area fa bf (boundary_id b) = 0 then Inl ZeroDivisionError
               else Inr (Value (Num (bc_force / assemble_area fa bf (boundary_id b)))))
            \<and> apply_bc d fa bf b (integrals_F, bcs) =
              (if assemble_area fa bf (boundary_id b) = 0 then Inl ZeroDivisionError
               else Inl (UFLException
                 ''Dot product requires non-scalar arguments, got arguments with ranks 0 and 1.'')))
    \<and> (\<forall>c e. (bc_value b = Constant c \<and> length c = d \<or> bc_value b = Expression e \<and> length e = d)
            \<and> 1 < d \<longrightarrow>
            apply_bc d fa bf b (integrals_F, bcs) =
              (if assemble_area fa bf (boundary_id b) = 0 then Inl (UFLException ''Division by zero!'')
               else Inr (integrals_F @
                      [(BoundaryLoad (Division (bc_value b) (assemble_area fa bf (boundary_id b))),
                        ds (boundary_id b))], bcs)))
    \<and> assemble_area fa bf (boundary_id b) =
        (\<Sum>f<min (length fa) (length bf). if bf ! f = boundary_id b then fa ! f else 0)
    \<and> ((\<forall>a\<in>set fa. 0 \<le> a) \<longrightarrow> 0 \<le> assemble_area fa bf (boundary_id b))"
proof -
  let ?A = "assemble_area fa bf (boundary_id b)"
  have quotient: "truediv (bc_value b) ?A =
      (if ?A = 0 then Inl ZeroDivisionError else Inr (Value (Num (bc_force / ?A))))"
    if "bc_value b = Num bc_force" for bc_force
    using that by (simp add: truediv_def)
  have num: "apply_bc d fa bf b (integrals_F, bcs) =
      (if ?A = 0 then Inl ZeroDivisionError
       else Inl (UFLException
         ''Dot product requires non-scalar arguments, got arguments with ranks 0 and 1.''))"
    if "bc_value b = Num bc_force" for bc_force
    using that by (simp add: apply_bc_force [OF force] truediv_def dot_def)
  have vec: "apply_bc d fa bf b (integrals_F, bcs) =
      (if ?A = 0 then Inl (UFLException ''Division by zero!'')
       else Inr (integrals_F @ [(BoundaryLoad (Division (bc_value b) ?A), ds (boundary_id b))], bcs))"
    if "(bc_value b = Constant c \<and> length c = d \<or> bc_value b = Expression e \<and> length e = d)
        \<and> 1 < d" for c e
    using that by (auto simp: apply_bc_force [OF force] truediv_def dot_def)
  from quotient num vec assemble_area_facets [of fa bf "boundary_id b"]
    assemble_area_nonneg [of fa bf "boundary_id b"]
  show ?thesis
    by blast
qed

theorem force_traction_quotient_witness:
  "truediv (Num 1000) 5 = Inr (Value (Num 200))
   \<and> apply_bc 3 [2, 3, 4] [2, 2, 0] pull ([], [])
       = Inl (UFLException
           ''Dot product requires non-scalar arguments, got arguments with ranks 0 and 1.'')
   \<and> apply_bc 3 [2, 3, 4] [1, 1, 0] pull ([], []) = Inl ZeroDivisionError
   \<and> apply_bc 3 [2, 3, 4] [2, 2, 0] haul ([], [])
       = Inr ([(BoundaryLoad (Division (Constant [0, 0, 1000]) 5), ds 2)], [])
   \<and> apply_bc 3 [2, 3, 4] [1, 1, 0] haul ([], []) = Inl (UFLException ''Division by zero!'')
   \<and> assemble_area [2, 3, 4] [2, 2, 0] (boundary_id pull) = 5"
proof -
  have force: "bc_type pull = ''force''" "bc_type haul = ''force''"
    by (simp_all add: pull_def haul_def)
  have area: "assemble_area [2, 3, 4] [2, 2, 0] 2 = 5" "assemble_area [2, 3, 4] [1, 1, 0] 2 = 0"
    by (simp_all add: assemble_area_def)
  have num: "bc_value pull = Num 1000"
    by (simp add: pull_def)
  have vec: "(bc_value haul = Constant [0, 0, 1000] \<and> length [0, 0, 1000 :: real] = 3
        \<or> bc_value haul = Expression [] \<and> length ([] :: string list) = 3) \<and> (1 :: nat) < 3"
    by (simp add: haul_def)
  have a: "truediv (Num 1000) 5 = Inr (Value (Num 200))
      \<and> apply_bc 3 [2, 3, 4] [2, 2, 0] pull ([], [])
       = Inl (UFLException
           ''Dot product requires non-scalar arguments, got arguments with ranks 0 and 1.'')"
    using force_traction_quotient [OF force(1), of "[2, 3, 4]" "[2, 2, 0]" 3 "[]" "[]"] num area
    by (simp add: pull_def)
  have b: "apply_bc 3 [2, 3, 4] [1, 1, 0] pull ([], []) = Inl ZeroDivisionError"
    using force_traction_quotient [OF force(1), of "[2, 3, 4]" "[1, 1, 0]" 3 "[]" "[]"] num area
    by (simp add: pull_def)
  from force_traction_quotient [OF force(2), of "[2, 3, 4]" "[2, 2, 0]" 3 "[]" "[]"] vec
  have "apply_bc 3 [2, 3, 4] [2, 2, 0] haul ([], []) =
      (if assemble_area [2, 3, 4] [2, 2, 0] (boundary_id haul) = 0
       then Inl (UFLException ''Division by zero!'')
       else Inr ([] @ [(BoundaryLoad (Division (bc_value haul)
                   (assemble_area [2, 3, 4] [2, 2, 0] (boundary_id haul))), ds (boundary_id haul))], []))"
    by blast
  then have c: "apply_bc 3 [2, 3, 4] [2, 2, 0] haul ([], [])
       = Inr ([(BoundaryLoad (Division (Constant [0, 0, 1000]) 5), ds 2)], [])"
    using area by (simp add: haul_def)
  from force_traction_quotient [OF force(2), of "[2, 3, 4]" "[1, 1, 0]" 3 "[]" "[]"] vec
  have "apply_bc 3 [2, 3, 4] [1, 1, 0] haul ([], []) =
      (if assemble_area [2, 3, 4] [1, 1, 0] (boundary_id haul) = 0
       then Inl (UFLException ''Division by zero!'')
       else Inr ([] @ [(BoundaryLoad (Division (bc_value haul)
                   (assemble_area [2, 3, 4] [1, 1, 0] (boundary_id haul))), ds (boundary_id haul))], []))"
    by blast
  then have d: "apply_bc 3 [2, 3, 4] [1, 1, 0] haul ([], []) = Inl (UFLException ''Division by zero!'')"
    using area by (simp add: haul_def)
  from a b c d area show ?thesis
    by (simp add: pull_def)
qed

text \<open>
  C2 as stated fails: a force boundary that selects no facet has area zero, and the
  exception is \<^verbatim>\<open>ZeroDivisionError\<close>, which no handler of a solver error catches.
\<close>

theorem force_zero_area_counterexample:
  "update_boundary_conditions id (cube\<lparr>boundary_conditions := [(''pull'', pull\<lparr>boundary := []\<rparr>)]\<rparr>)
     = Inl ZeroDivisionError"
  by (simp add: assembly_defs cube_def pull_def)

text \<open>No branch of the loop reads the direction of an entry.\<close>

lemma apply_bc_ignores_direction:
  "apply_bc d fa bf (b\<lparr>direction := x\<rparr>) acc = apply_bc d fa bf b acc"
  by (simp add: apply_bc_def Let_def split: prod.splits pyobj.splits sum.splits)

text \<open>
  C3. On the cube, the force \<^verbatim>\<open>Constant((0, 0, 1000))\<close> on the two unit faces 4 and 5 appends
  \<^verbatim>\<open>dot(g, v)*ds(2)\<close> with \<open>g\<close> the force divided by the area 2, and the appended term is the
  same for the direction \<open>(1, 0, 0)\<close>, for the direction \<open>(0, 1, 0)\<close> and without a
  direction: lines 147-150 compute the direction and line 151 does not use it.
\<close>

theorem force_direction_unused:
  "update_boundary_conditions id
     (cube\<lparr>boundary_conditions :=
        [(''haul'', haul\<lparr>direction := Some (PerAxis [Some 1, Some 0, Some 0])\<rparr>)]\<rparr>)
     = Inr ([(Stiffness 10 15, dx), (BodyLoad (Constant [0, 0, 0]), dx),
             (BoundaryLoad (Division (Constant [0, 0, 1000]) 2), ds 2)], [])
   \<and> update_boundary_conditions id
     (cube\<lparr>boundary_conditions :=
        [(''haul'', haul\<lparr>direction := Some (PerAxis [Some 0, Some 1, Some 0])\<rparr>)]\<rparr>)
     = Inr ([(Stiffness 10 15, dx), (BodyLoad (Constant [0, 0, 0]), dx),
             (BoundaryLoad (Division (Constant [0, 0, 1000]) 2), ds 2)], [])
   \<and> update_boundary_conditions id (cube\<lparr>boundary_conditions := [(''haul'', haul)]\<rparr>)
     = Inr ([(Stiffness 10 15, dx), (BodyLoad (Constant [0, 0, 0]), dx),
             (BoundaryLoad (Division (Constant [0, 0, 1000]) 2), ds 2)], [])
   \<and> direction_of (haul\<lparr>direction := Some (PerAxis [Some 1, Some 0, Some 0])\<rparr>)
       = Supplied (PerAxis [Some 1, Some 0, Some 0])
   \<and> direction_of (haul\<lparr>direction := Some (PerAxis [Some 0, Some 1, Some 0])\<rparr>)
       = Supplied (PerAxis [Some 0, Some 1, Some 0])
   \<and> direction_of haul = FacetNormal"
  by (simp add: assembly_defs cube_def haul_def)

text \<open>A per-axis value yields one constraint for each entry that is neither \<^verbatim>\<open>None\<close> nor zero.\<close>

lemma axis_constraints_count:
  "length (axis_constraints i axis_i xs) = length (filter (\<lambda>disp. disp \<noteq> None \<and> disp \<noteq> Some 0) xs)"
  by (induction xs arbitrary: axis_i) (auto split: option.splits)

text \<open>
  C4. On the cube, the per-axis value \<open>[0, None, 0.01]\<close> registers one constraint only, on
  the third axis: the first axis, whose prescribed value is 0, stays free, because the test
  of line 137 is a truth test. The clamp with the vector value \<open>(0, 0, 0)\<close> is registered.
\<close>

theorem zero_component_unconstrained:
  "update_boundary_conditions id (cube\<lparr>boundary_conditions := [(''roller'', roller)]\<rparr>)
     = Inr ([(Stiffness 10 15, dx), (BodyLoad (Constant [0, 0, 0]), dx)],
            [DirichletBC (Vsub 2) (Constant [1 / 100]) 1])
   \<and> update_boundary_conditions id (cube\<lparr>boundary_conditions := [(''clamp'', clamp)]\<rparr>)
     = Inr ([(Stiffness 10 15, dx), (BodyLoad (Constant [0, 0, 0]), dx)],
            [DirichletBC V (Constant [0, 0, 0]) 1])"
  by (simp add: assembly_defs cube_def roller_def clamp_def)

section \<open>Assembly: the facet marks\<close>

lemma length_mark: "length (mark selected i bf) = length bf"
  by (simp add: mark_def)

lemma nth_mark:
  "f < length bf \<Longrightarrow> mark selected i bf ! f = (if f \<in> set selected then i else bf ! f)"
  by (simp add: mark_def nth_enumerate_eq)

lemma find_append_cases:
  "find P (xs @ ys) = (case find P xs of None \<Rightarrow> find P ys | Some x \<Rightarrow> Some x)"
  by (induction xs) auto

lemma length_mark_all: "length (mark_all bcs bf) = length bf"
  by (induction bcs arbitrary: bf) (auto simp: length_mark)

lemma nth_mark_all:
  "f < length bf \<Longrightarrow>
   mark_all bcs bf ! f =
     (case find (\<lambda>x. f \<in> set (boundary (snd x))) (rev bcs) of
        None \<Rightarrow> bf ! f
      | Some x \<Rightarrow> boundary_id (snd x))"
proof (induction bcs arbitrary: bf)
  case Nil
  then show ?case by simp
next
  case (Cons x bcs)
  obtain name b where x: "x = (name, b)" by (cases x)
  from Cons.prems have "f < length (mark (boundary b) (boundary_id b) bf)"
    by (simp add: length_mark)
  from Cons.IH [OF this] Cons.prems show ?case
    by (simp add: x nth_mark find_append_cases split: option.splits)
qed

lemma bc_loop_natural:
  "\<forall>x\<in>set bcs. (bc_type (snd x) = ''stress'' \<or> bc_type (snd x) = ''Neumann'')
      \<and> ufl_shape (bc_value (snd x)) = Inr (Vector d) \<Longrightarrow>
   bc_loop d fa bf bcs (integrals_F, cs) =
     Inr (integrals_F @
            map (\<lambda>x. (BoundaryLoad (Value (bc_value (snd x))), ds (boundary_id (snd x)))) bcs, cs)"
proof (induction bcs arbitrary: integrals_F)
  case Nil
  then show ?case by simp
next
  case (Cons x bcs)
  obtain name b where x: "x = (name, b)" by (cases x)
  from Cons.prems have b: "bc_type b = ''stress'' \<or> bc_type b = ''Neumann''"
    and shape: "ufl_shape (bc_value b) = Inr (Vector d)"
    by (simp_all add: x)
  have step: "apply_bc d fa bf b (integrals_F, cs) =
      Inr (integrals_F @ [(BoundaryLoad (Value (bc_value b)), ds (boundary_id b))], cs)"
    by (simp add: apply_bc_natural [OF b] dot_def shape)
  from Cons.prems have "\<forall>x\<in>set bcs. (bc_type (snd x) = ''stress'' \<or> bc_type (snd x) = ''Neumann'')
      \<and> ufl_shape (bc_value (snd x)) = Inr (Vector d)"
    by simp
  from Cons.IH [OF this] step show ?case
    by (simp add: x)
qed

text \<open>
  C7, as the code has it. Nothing compares the identifiers of the boundary conditions.
  The marks are written in the order of the list: a facet ends with the identifier of the
  last boundary that selects it (its initial mark when none does), so a later boundary
  overwrites an earlier one where they overlap. A list of \<^verbatim>\<open>stress\<close> or \<^verbatim>\<open>Neumann\<close> entries
  whose values are vectors of the dimension of the problem is assembled whatever its
  identifiers are, each entry adding its own term over \<^verbatim>\<open>ds\<close> of its identifier.
\<close>

theorem marks_follow_list_order:
  "length (mark_all bcs boundary_facets) = length boundary_facets
   \<and> (\<forall>f<length boundary_facets.
         mark_all bcs boundary_facets ! f =
           (case find (\<lambda>x. f \<in> set (boundary (snd x))) (rev bcs) of
              None \<Rightarrow> boundary_facets ! f
            | Some x \<Rightarrow> boundary_id (snd x)))
   \<and> (0 < d \<and> (\<forall>x\<in>set bcs. (bc_type (snd x) = ''stress'' \<or> bc_type (snd x) = ''Neumann'')
          \<and> ufl_shape (bc_value (snd x)) = Inr (Vector d)) \<longrightarrow>
         bc_loop d facet_areas marks bcs (integrals_F, cs) =
           Inr (integrals_F @
                  map (\<lambda>x. (BoundaryLoad (Value (bc_value (snd x))), ds (boundary_id (snd x)))) bcs,
                cs))"
  using length_mark_all [of bcs boundary_facets] nth_mark_all [of _ boundary_facets bcs]
    bc_loop_natural [of bcs d facet_areas marks integrals_F cs]
  by blast

theorem marks_follow_list_order_witness:
  "mark_all [(''top'', press\<lparr>boundary := [4, 5], boundary_id := 1\<rparr>), (''press'', press)]
       [0, 0, 0, 0, 0, 0] ! 5 = 2
   \<and> mark_all [(''top'', press\<lparr>boundary := [4, 5], boundary_id := 1\<rparr>), (''press'', press)]
       [0, 0, 0, 0, 0, 0] ! 4 = 1
   \<and> bc_loop 3 [1, 1, 1, 1, 1, 1] [0, 0, 0, 0, 2, 2]
       [(''press'', press), (''shear'', press\<lparr>boundary := [4], bc_value := Constant [1, 0, 0]\<rparr>)]
       ([], [])
     = Inr ([(BoundaryLoad (Value (Constant [0, 0, - 1000000])), ds 2),
             (BoundaryLoad (Value (Constant [1, 0, 0])), ds 2)], [])"
proof -
  let ?overlap = "[(''top'', press\<lparr>boundary := [4, 5], boundary_id := 1\<rparr>), (''press'', press)]"
  let ?twice = "[(''press'', press), (''shear'', press\<lparr>boundary := [4], bc_value := Constant [1, 0, 0]\<rparr>)]"
  have natural: "\<forall>x\<in>set ?twice. (bc_type (snd x) = ''stress'' \<or> bc_type (snd x) = ''Neumann'')
      \<and> ufl_shape (bc_value (snd x)) = Inr (Vector 3)"
    by (simp add: press_def)
  have five: "(5::nat) < length [0, 0, 0, 0, 0, 0 :: nat]" and four: "(4::nat) < length [0, 0, 0, 0, 0, 0 :: nat]"
    by simp_all
  note inst = marks_follow_list_order [of ?overlap "[0, 0, 0, 0, 0, 0]"]
  note loop = marks_follow_list_order [of ?twice "[0, 0, 0, 0, 0, 0]" 3 "[1, 1, 1, 1, 1, 1]"
      "[0, 0, 0, 0, 2, 2]" "[]" "[]"]
  from inst five have "mark_all ?overlap [0, 0, 0, 0, 0, 0] ! 5 =
      (case find (\<lambda>x. 5 \<in> set (boundary (snd x))) (rev ?overlap) of
         None \<Rightarrow> [0, 0, 0, 0, 0, 0] ! 5 | Some x \<Rightarrow> boundary_id (snd x))"
    by blast
  then have a: "mark_all ?overlap [0, 0, 0, 0, 0, 0] ! 5 = 2"
    by (simp add: press_def)
  from inst four have "mark_all ?overlap [0, 0, 0, 0, 0, 0] ! 4 =
      (case find (\<lambda>x. 4 \<in> set (boundary (snd x))) (rev ?overlap) of
         None \<Rightarrow> [0, 0, 0, 0, 0, 0] ! 4 | Some x \<Rightarrow> boundary_id (snd x))"
    by blast
  then have b: "mark_all ?overlap [0, 0, 0, 0, 0, 0] ! 4 = 1"
    by (simp add: press_def)
  have pos: "(0::nat) < 3"
    by simp
  from loop natural pos have c: "bc_loop 3 [1, 1, 1, 1, 1, 1] [0, 0, 0, 0, 2, 2] ?twice ([], []) =
      Inr ([] @ map (\<lambda>x. (BoundaryLoad (Value (bc_value (snd x))), ds (boundary_id (snd x)))) ?twice, [])"
    by blast
  from a b c show ?thesis
    by (simp add: press_def)
qed

text \<open>
  C7 as stated fails: two tractions on the faces 5 and 4 that share the identifier 2 are
  assembled without an exception, and of two overlapping boundaries the later one takes
  face 5 from the earlier one.
\<close>

theorem duplicate_boundary_id_counterexample:
  "update_boundary_conditions id
     (cube\<lparr>boundary_conditions :=
        [(''press'', press),
         (''shear'', press\<lparr>boundary := [4], bc_value := Constant [1, 0, 0]\<rparr>)]\<rparr>)
     = Inr ([(Stiffness 10 15, dx), (BodyLoad (Constant [0, 0, 0]), dx),
             (BoundaryLoad (Value (Constant [0, 0, - 1000000])), ds 2),
             (BoundaryLoad (Value (Constant [1, 0, 0])), ds 2)], [])
   \<and> mark_all [(''top'', press\<lparr>boundary := [4, 5], boundary_id := 1\<rparr>), (''press'', press)]
       [0, 0, 0, 0, 0, 0] = [0, 0, 0, 0, 1, 2]"
  by (simp add: assembly_defs cube_def press_def)

end
